theory Spec2Isabelle
  imports Main "HOL-Library.Word"
begin

text \<open>
  A model of the statistics structures of msStatistics.hpp and of the test context of
  metaspace\_test.cpp, of HotSpot's metaspace allocator. What these two files use and do
  not define (the commit limiter, the chunk levels and the chunks) is modelled from the
  specification of the allocator; each such definition says so.
\<close>

section \<open>Machine types\<close>

text \<open>
  The model is that of an LP64 build: \<open>size_t\<close> and \<open>uintx\<close> are 64-bit unsigned
  integers whose \<open>+\<close>, \<open>-\<close> and \<open>*\<close> wrap around, and \<open>int\<close> is a 32-bit
  integer, read as signed by \<open>sint\<close>. (Signed overflow is undefined in C++; the model of
  \<open>num += other.num\<close> takes the two's-complement result.)
\<close>

type_synonym size_t = "64 word"
type_synonym uintx = "64 word"
type_synonym cint = "32 word"

section \<open>msStatistics.hpp\<close>

subsection \<open>InUseChunkStats\<close>

text \<open>
  \<^verbatim>\<open>struct InUseChunkStats\<close> (msStatistics.hpp:70-114): statistics for one or more
  chunks in use. All sizes are in words.
\<close>

record InUseChunkStats =
  num :: cint
  word_size :: size_t
  committed_words :: size_t
  used_words :: size_t
  free_words :: size_t
  waste_words :: size_t

text \<open>The constructor \<^verbatim>\<open>InUseChunkStats()\<close> (msStatistics.hpp:95-98).\<close>

definition InUseChunkStats_init :: InUseChunkStats where
  "InUseChunkStats_init =
     \<lparr>num = 0, word_size = 0, committed_words = 0,
      used_words = 0, free_words = 0, waste_words = 0\<rparr>"

text \<open>
  \<^verbatim>\<open>void add(const InUseChunkStats& other)\<close> (msStatistics.hpp:100-108). The method
  updates \<open>this\<close> in place; the model returns the updated value.
\<close>

definition InUseChunkStats_add :: "InUseChunkStats \<Rightarrow> InUseChunkStats \<Rightarrow> InUseChunkStats" where
  "InUseChunkStats_add this other =
     this\<lparr>num := num this + num other,
          word_size := word_size this + word_size other,
          committed_words := committed_words this + committed_words other,
          used_words := used_words this + used_words other,
          free_words := free_words this + free_words other,
          waste_words := waste_words this + waste_words other\<rparr>"

text \<open>
  The relations of the note at msStatistics.hpp:75-77, ``capacity = committed +
  uncommitted'' and ``committed = used + free + waste'', the capacity being \<open>word_size\<close>:
  the committed words are the sum of the used, free and waste words, and they are at most
  the capacity. They are read as the C++ expressions over \<open>size_t\<close>
  \<^verbatim>\<open>committed_words == used_words + free_words + waste_words\<close> and
  \<^verbatim>\<open>word_size >= committed_words\<close>.
\<close>

definition InUseChunkStats_invariant :: "InUseChunkStats \<Rightarrow> bool" where
  "InUseChunkStats_invariant s \<longleftrightarrow>
     committed_words s = used_words s + free_words s + waste_words s \<and>
     committed_words s \<le> word_size s"


subsection \<open>ArenaStats\<close>

text \<open>
  \<^verbatim>\<open>struct ArenaStats\<close> (msStatistics.hpp:117-138). The array
  \<^verbatim>\<open>InUseChunkStats stats[chunklevel::NUM_CHUNK_LEVELS]\<close> is a list; the constant
  \<^verbatim>\<open>NUM_CHUNK_LEVELS\<close> comes from msChunklevel.hpp, which is outside the files covered
  here, and is a parameter \<open>n\<close> of the model. A well-formed \<open>ArenaStats\<close> has exactly
  \<open>n\<close> entries.
\<close>

record ArenaStats =
  stats :: "InUseChunkStats list"
  free_blocks_num :: uintx
  free_blocks_word_size :: size_t

definition ArenaStats_wf :: "nat \<Rightarrow> ArenaStats \<Rightarrow> bool" where
  "ArenaStats_wf n a \<longleftrightarrow> length (stats a) = n"

text \<open>
  The constructor \<^verbatim>\<open>ArenaStats()\<close> (msStatistics.hpp:124-128): \<^verbatim>\<open>stats()\<close>
  value-initialises the array, which runs \<^verbatim>\<open>InUseChunkStats()\<close> on every element.
\<close>

definition ArenaStats_init :: "nat \<Rightarrow> ArenaStats" where
  "ArenaStats_init n =
     \<lparr>stats = replicate n InUseChunkStats_init,
      free_blocks_num = 0, free_blocks_word_size = 0\<rparr>"

text \<open>
  Modelled from the spec: \<^verbatim>\<open>ArenaStats::add\<close> is declared at msStatistics.hpp:130 and
  its body is outside the files covered here. Following the data model
  (``\<open>InUseChunkStats\<close> per level, aggregated into \<open>ArenaStats\<close> [...] plus a free-block
  count/size pair''), it adds the other value's statistics level by level with
  \<^verbatim>\<open>InUseChunkStats::add\<close> and sums the two free-block counters. \<open>add_levels\<close> is
  the loop over the levels; both arrays have \<^verbatim>\<open>NUM_CHUNK_LEVELS\<close> entries.
\<close>

fun add_levels :: "InUseChunkStats list \<Rightarrow> InUseChunkStats list \<Rightarrow> InUseChunkStats list" where
  "add_levels (x # xs) (y # ys) = InUseChunkStats_add x y # add_levels xs ys"
| "add_levels xs [] = xs"
| "add_levels [] ys = []"

text \<open>
  Modelled from the spec: \<^verbatim>\<open>ArenaStats::add\<close>, with \<open>add_levels\<close> for the array of
  per-level statistics.
\<close>

definition ArenaStats_add :: "ArenaStats \<Rightarrow> ArenaStats \<Rightarrow> ArenaStats" where
  "ArenaStats_add this other =
     this\<lparr>stats := add_levels (stats this) (stats other),
          free_blocks_num := free_blocks_num this + free_blocks_num other,
          free_blocks_word_size := free_blocks_word_size this + free_blocks_word_size other\<rparr>"

subsection \<open>ClmsStats\<close>

text \<open>\<^verbatim>\<open>struct ClmsStats\<close> (msStatistics.hpp:141-160).\<close>

record ClmsStats =
  arena_stats_nonclass :: ArenaStats
  arena_stats_class :: ArenaStats

text \<open>The constructor \<^verbatim>\<open>ClmsStats()\<close> (msStatistics.hpp:146).\<close>

definition ClmsStats_init :: "nat \<Rightarrow> ClmsStats" where
  "ClmsStats_init n =
     \<lparr>arena_stats_nonclass = ArenaStats_init n, arena_stats_class = ArenaStats_init n\<rparr>"

text \<open>\<^verbatim>\<open>void add(const ClmsStats& other)\<close> (msStatistics.hpp:148-151).\<close>

definition ClmsStats_add :: "ClmsStats \<Rightarrow> ClmsStats \<Rightarrow> ClmsStats" where
  "ClmsStats_add this other =
     this\<lparr>arena_stats_nonclass :=
            ArenaStats_add (arena_stats_nonclass this) (arena_stats_nonclass other),
          arena_stats_class :=
            ArenaStats_add (arena_stats_class this) (arena_stats_class other)\<rparr>"

definition ClmsStats_wf :: "nat \<Rightarrow> ClmsStats \<Rightarrow> bool" where
  "ClmsStats_wf n c \<longleftrightarrow>
     ArenaStats_wf n (arena_stats_nonclass c) \<and> ArenaStats_wf n (arena_stats_class c)"

section \<open>Constants of globalDefinitions.hpp\<close>

text \<open>
  globalDefinitions.hpp is outside the files covered here. \<^verbatim>\<open>max_uintx\<close> is the largest
  value of \<open>uintx\<close> (all bits set) and \<^verbatim>\<open>BytesPerWord\<close> is the size of a machine
  word in bytes, 8 in the LP64 model.
\<close>

definition max_uintx :: uintx where
  "max_uintx = - 1"

definition BytesPerWord :: size_t where
  "BytesPerWord = 8"

section \<open>The commit limiter\<close>

text \<open>
  Modelled from the spec: the class \<^verbatim>\<open>CommitLimiter\<close> (commitLimiter.hpp) is outside
  the files covered here; metaspace\_test.cpp only constructs one from a ceiling. Its state
  is ``a single counter of committed words, a ceiling (unbounded if zero)''. The counter
  and the ceiling are \<open>size_t\<close> values, as the constructor argument at
  metaspace\_test.cpp:68 is.
\<close>

record CommitLimiter =
  committed_counter :: size_t
  ceiling :: size_t

text \<open>
  Modelled from the spec: the constructor \<^verbatim>\<open>CommitLimiter(cap)\<close>, used at
  metaspace\_test.cpp:68. A new limiter has nothing committed, and its ceiling is the
  argument.
\<close>

definition CommitLimiter_init :: "size_t \<Rightarrow> CommitLimiter" where
  "CommitLimiter_init cap = \<lparr>committed_counter = 0, ceiling = cap\<rparr>"




section \<open>metaspace\_test.cpp: the test context\<close>

text \<open>
  \<^verbatim>\<open>ReservedSpace rs(size, alignment, large)\<close>: the class (virtualspace.hpp) is outside
  the files covered here; the model keeps the three constructor arguments, the size being
  in bytes.
\<close>

record ReservedSpace =
  rs_size :: size_t
  rs_alignment :: size_t
  rs_large :: bool

text \<open>The size of a reservation in words, \<^verbatim>\<open>BytesPerWord\<close> bytes each.\<close>

definition rs_word_size :: "ReservedSpace \<Rightarrow> size_t" where
  "rs_word_size rs = rs_size rs div BytesPerWord"

text \<open>
  \<^verbatim>\<open>MetaspaceContext::create_nonexpandable_context(name, rs, &_commit_limiter)\<close> and
  \<^verbatim>\<open>MetaspaceContext::create_expandable_context(name, &_commit_limiter)\<close>
  (metaspaceContext.hpp) are outside the files covered here. The model of a context is the
  record of which of the two factories made it, with the name and the reservation it was
  given. The limiter it is given is the \<^verbatim>\<open>_commit_limiter\<close> member of the test
  context that owns it.
\<close>

datatype MetaspaceContext =
  create_nonexpandable_context string ReservedSpace
| create_expandable_context string

text \<open>
  A context is expandable when \<^verbatim>\<open>create_expandable_context\<close> made it, and its
  reservations at creation are the one that \<^verbatim>\<open>create_nonexpandable_context\<close> was
  given, or none.
\<close>

fun is_expandable :: "MetaspaceContext \<Rightarrow> bool" where
  "is_expandable (create_nonexpandable_context nm rs) = False"
| "is_expandable (create_expandable_context nm) = True"

fun reservations :: "MetaspaceContext \<Rightarrow> ReservedSpace list" where
  "reservations (create_nonexpandable_context nm rs) = [rs]"
| "reservations (create_expandable_context nm) = []"

text \<open>
  \<^verbatim>\<open>class MetaspaceTestContext\<close>: the members set by the constructor. The
  \<^verbatim>\<open>SizeAtomicCounter _used_words_counter\<close> (runningCounters.hpp, outside the files
  covered here) is a \<open>size_t\<close> counter that starts at zero.
\<close>

record MetaspaceTestContext =
  m_name :: string
  m_reserve_limit :: size_t
  m_commit_limit :: size_t
  m_context :: MetaspaceContext
  m_commit_limiter :: CommitLimiter
  m_used_words_counter :: size_t

text \<open>
  The constructor
  \<^verbatim>\<open>MetaspaceTestContext(const char* name, size_t commit_limit, size_t reserve_limit)\<close>
  (metaspace\_test.cpp:65-81). \<^verbatim>\<open>Metaspace::reserve_alignment()\<close> is outside the
  files covered here and is the parameter \<open>reserve_alignment\<close>.
\<close>

definition MetaspaceTestContext_init ::
    "size_t \<Rightarrow> string \<Rightarrow> size_t \<Rightarrow> size_t \<Rightarrow> MetaspaceTestContext" where
  "MetaspaceTestContext_init reserve_alignment name commit_limit reserve_limit =
     \<lparr>m_name = name,
      m_reserve_limit = reserve_limit,
      m_commit_limit = commit_limit,
      m_context =
        (if 0 < reserve_limit
         then create_nonexpandable_context name
                \<lparr>rs_size = reserve_limit * BytesPerWord,
                 rs_alignment = reserve_alignment,
                 rs_large = False\<rparr>
         else create_expandable_context name),
      m_commit_limiter =
        CommitLimiter_init (if commit_limit = 0 then max_uintx else commit_limit),
      m_used_words_counter = 0\<rparr>"

section \<open>Chunk levels and chunks\<close>

text \<open>
  Modelled from the spec: msChunklevel.hpp and the chunk class are outside the files
  covered here. ``ChunkLevel: one of a small fixed number of discrete size classes (e.g.,
  level 0 = root chunk size, each subsequent level = half the previous), down to a minimum
  block granularity.'' The number of levels and the size of the smallest chunk are not
  given and are parameters. All sizes are in words, and addresses are word offsets.
\<close>

record chunklevel =
  NUM_CHUNK_LEVELS :: nat
  MIN_CHUNK_WORD_SIZE :: nat

text \<open>Modelled from the spec: the levels are numbered from 0, the root chunk level.\<close>

definition is_valid_level :: "chunklevel \<Rightarrow> nat \<Rightarrow> bool" where
  "is_valid_level p l \<longleftrightarrow> l < NUM_CHUNK_LEVELS p"

text \<open>
  Modelled from the spec: the size of a chunk of a level, ``each subsequent level = half the
  previous'', the chunks of the last level having the smallest size.
\<close>

definition word_size_for_level :: "chunklevel \<Rightarrow> nat \<Rightarrow> nat" where
  "word_size_for_level p l = MIN_CHUNK_WORD_SIZE p * 2 ^ (NUM_CHUNK_LEVELS p - 1 - l)"

text \<open>
  Modelled from the spec: ``Chunk: represents one contiguous region of virtual address
  space. Attributes: level, base address, committed byte range (subset of its reserved
  range, contiguous from the low end), used-word high-water mark, state \<open>\<in>\<close> \{Free, InUse,
  Split\}.'' The committed range, being contiguous from the low end, is given by its
  length.
\<close>

datatype chunk_state = Free | InUse | Split

record Chunk =
  level :: nat
  base :: nat
  committed :: nat
  used :: nat
  state :: chunk_state

text \<open>Modelled from the spec: ``every chunk's size equals exactly one level's size''.\<close>

definition chunk_word_size :: "chunklevel \<Rightarrow> Chunk \<Rightarrow> nat" where
  "chunk_word_size p c = word_size_for_level p (level c)"

text \<open>
  Modelled from the spec: ``buddy-aligned''. A chunk is buddy-aligned when it starts at a
  multiple of its own size.
\<close>

definition is_buddy_aligned :: "chunklevel \<Rightarrow> Chunk \<Rightarrow> bool" where
  "is_buddy_aligned p c \<longleftrightarrow> base c mod chunk_word_size p c = 0"

text \<open>The address range of a chunk, as its first address and the address past its end.\<close>

definition address_range :: "chunklevel \<Rightarrow> Chunk \<Rightarrow> nat \<times> nat" where
  "address_range p c = (base c, base c + chunk_word_size p c)"

text \<open>
  Modelled from the spec: ``a chunk may be split into exactly two chunks of the next-finer
  level'', with the transitions \<open>Free \<rightarrow> Split \<rightarrow> {two Free children}\<close>. The result is the
  pair of children, the lower one first; a chunk that is not free, or is of the finest
  level, cannot be split. The committed range of the parent, contiguous from its low end,
  is shared out between the children.
\<close>

definition split_chunk :: "chunklevel \<Rightarrow> Chunk \<Rightarrow> (Chunk \<times> Chunk) option" where
  "split_chunk p c =
     (if state c = Free \<and> is_valid_level p (Suc (level c))
      then let sz = word_size_for_level p (Suc (level c)) in
        Some (c\<lparr>level := Suc (level c), committed := min (committed c) sz, used := 0\<rparr>,
              c\<lparr>level := Suc (level c), base := base c + sz,
                committed := committed c - sz, used := 0\<rparr>)
      else None)"

text \<open>
  Modelled from the spec: ``two adjacent same-level chunks may merge into one coarser chunk
  only if both are free and buddy-aligned''. \<open>a\<close> is the lower chunk and \<open>b\<close> the upper
  one; the pair is buddy-aligned when \<open>a\<close> starts at a multiple of the size of the coarser
  chunk. The committed range of the result is contiguous from its low end.
\<close>

definition merge_chunks :: "chunklevel \<Rightarrow> Chunk \<Rightarrow> Chunk \<Rightarrow> Chunk option" where
  "merge_chunks p a b =
     (if state a = Free \<and> state b = Free \<and>
         level a = level b \<and> 0 < level a \<and> is_valid_level p (level a) \<and>
         base b = base a + chunk_word_size p a \<and>
         base a mod word_size_for_level p (level a - 1) = 0
      then Some (a\<lparr>level := level a - 1,
                   committed := (if committed a = chunk_word_size p a
                                 then committed a + committed b else committed a),
                   used := 0\<rparr>)
      else None)"

section \<open>Properties of the statistics structures\<close>

lemma InUseChunkStats_add_fields:
  "InUseChunkStats_add a b =
     \<lparr>num = num a + num b,
      word_size = word_size a + word_size b,
      committed_words = committed_words a + committed_words b,
      used_words = used_words a + used_words b,
      free_words = free_words a + free_words b,
      waste_words = waste_words a + waste_words b\<rparr>"
  by (simp add: InUseChunkStats_add_def)

lemma size_t_add_mono:
  fixes c1 c2 w1 w2 :: size_t
  assumes "c1 \<le> w1" and "c2 \<le> w2" and "unat w1 + unat w2 < 2 ^ 64"
  shows "c1 + c2 \<le> w1 + w2"
proof -
  have le: "unat c1 \<le> unat w1" "unat c2 \<le> unat w2"
    using assms(1,2) by (simp_all add: word_le_nat_alt)
  have "unat (w1 + w2) = unat w1 + unat w2"
    using assms(3) by (simp add: unat_add_lem [THEN iffD1])
  moreover have "unat (c1 + c2) = unat c1 + unat c2"
    using le assms(3) by (simp add: unat_add_lem [THEN iffD1])
  ultimately show ?thesis
    using le by (simp add: word_le_nat_alt)
qed

lemma InUseChunkStats_add_invariant:
  assumes "InUseChunkStats_invariant a" and "InUseChunkStats_invariant b"
    and "unat (word_size a) + unat (word_size b) < 2 ^ 64"
  shows "InUseChunkStats_invariant (InUseChunkStats_add a b)"
proof -
  have "committed_words a \<le> word_size a" and "committed_words b \<le> word_size b"
    using assms(1,2) unfolding InUseChunkStats_invariant_def by blast+
  then have "committed_words a + committed_words b \<le> word_size a + word_size b"
    using assms(3) by (rule size_t_add_mono)
  moreover have "committed_words a + committed_words b =
      (used_words a + used_words b) + (free_words a + free_words b)
        + (waste_words a + waste_words b)"
    using assms(1,2) by (simp add: InUseChunkStats_invariant_def)
  ultimately show ?thesis
    by (simp add: InUseChunkStats_invariant_def InUseChunkStats_add_def)
qed

lemma InUseChunkStats_add_init: "InUseChunkStats_add s InUseChunkStats_init = s"
  by (simp add: InUseChunkStats_add_def InUseChunkStats_init_def)

lemma add_levels_init: "add_levels xs (replicate (length xs) InUseChunkStats_init) = xs"
  by (induction xs) (simp_all add: InUseChunkStats_add_init)

lemma ArenaStats_add_init:
  "ArenaStats_wf n a \<Longrightarrow> ArenaStats_add a (ArenaStats_init n) = a"
  using add_levels_init [of "stats a"]
  by (simp add: ArenaStats_wf_def ArenaStats_add_def ArenaStats_init_def)

text \<open>
  C9 (as amended). \<^verbatim>\<open>InUseChunkStats::add\<close> sums every field component-wise, the
  \<open>size_t\<close> fields modulo \<open>2^64\<close>. For two values that each satisfy
  \<open>committed_words == used_words + free_words + waste_words\<close> and
  \<open>word_size >= committed_words\<close>, the sum satisfies both relations when the sum of the two
  \<open>word_size\<close> fields does not overflow \<open>size_t\<close>.
\<close>

theorem InUseChunkStats_add_preserves_invariant:
  "InUseChunkStats_add a b =
     \<lparr>num = num a + num b,
      word_size = word_size a + word_size b,
      committed_words = committed_words a + committed_words b,
      used_words = used_words a + used_words b,
      free_words = free_words a + free_words b,
      waste_words = waste_words a + waste_words b\<rparr> \<and>
   (InUseChunkStats_invariant a \<and> InUseChunkStats_invariant b \<and>
    unat (word_size a) + unat (word_size b) < 2 ^ 64 \<longrightarrow>
      InUseChunkStats_invariant (InUseChunkStats_add a b))"
proof (intro conjI impI)
  show "InUseChunkStats_add a b =
     \<lparr>num = num a + num b,
      word_size = word_size a + word_size b,
      committed_words = committed_words a + committed_words b,
      used_words = used_words a + used_words b,
      free_words = free_words a + free_words b,
      waste_words = waste_words a + waste_words b\<rparr>"
    by (rule InUseChunkStats_add_fields)
next
  assume "InUseChunkStats_invariant a \<and> InUseChunkStats_invariant b \<and>
    unat (word_size a) + unat (word_size b) < 2 ^ 64"
  then show "InUseChunkStats_invariant (InUseChunkStats_add a b)"
    by (simp add: InUseChunkStats_add_invariant)
qed

theorem InUseChunkStats_add_preserves_invariant_witness:
  "InUseChunkStats_invariant
     \<lparr>num = 1, word_size = 1024, committed_words = 512,
      used_words = 300, free_words = 200, waste_words = 12\<rparr> \<and>
   InUseChunkStats_invariant
     \<lparr>num = 2, word_size = 256, committed_words = 256,
      used_words = 250, free_words = 0, waste_words = 6\<rparr> \<and>
   unat (1024 :: size_t) + unat (256 :: size_t) < 2 ^ 64 \<and>
   InUseChunkStats_add
     \<lparr>num = 1, word_size = 1024, committed_words = 512,
      used_words = 300, free_words = 200, waste_words = 12\<rparr>
     \<lparr>num = 2, word_size = 256, committed_words = 256,
      used_words = 250, free_words = 0, waste_words = 6\<rparr> =
     \<lparr>num = 3, word_size = 1280, committed_words = 768,
      used_words = 550, free_words = 200, waste_words = 18\<rparr> \<and>
   InUseChunkStats_invariant
     \<lparr>num = 3, word_size = 1280, committed_words = 768,
      used_words = 550, free_words = 200, waste_words = 18\<rparr>"
  using InUseChunkStats_add_preserves_invariant
    [of "\<lparr>num = 1, word_size = 1024, committed_words = 512,
          used_words = 300, free_words = 200, waste_words = 12\<rparr>"
        "\<lparr>num = 2, word_size = 256, committed_words = 256,
          used_words = 250, free_words = 0, waste_words = 6\<rparr>"]
  by (simp add: InUseChunkStats_invariant_def)

text \<open>
  C9, the claim as stated, fails: two values that satisfy both relations, each with a
  \<open>word_size\<close> of \<open>2^63\<close> words, add up to a value whose \<open>word_size\<close> has wrapped to
  0 while its \<open>committed_words\<close> is 2.
\<close>

theorem InUseChunkStats_add_overflow_counterexample:
  "InUseChunkStats_invariant
     \<lparr>num = 1, word_size = 2 ^ 63, committed_words = 1,
      used_words = 1, free_words = 0, waste_words = 0\<rparr> \<and>
   \<not> InUseChunkStats_invariant
     (InUseChunkStats_add
        \<lparr>num = 1, word_size = 2 ^ 63, committed_words = 1,
         used_words = 1, free_words = 0, waste_words = 0\<rparr>
        \<lparr>num = 1, word_size = 2 ^ 63, committed_words = 1,
         used_words = 1, free_words = 0, waste_words = 0\<rparr>)"
  by (simp add: InUseChunkStats_invariant_def InUseChunkStats_add_def)







text \<open>
  C10. A default-constructed \<open>InUseChunkStats\<close>, \<open>ArenaStats\<close> or \<open>ClmsStats\<close> has
  every counter equal to zero, and adding it to a value \<open>s\<close> with the corresponding
  \<open>add\<close> leaves \<open>s\<close> unchanged.
\<close>

theorem default_constructed_is_right_identity:
  "InUseChunkStats_init =
     \<lparr>num = 0, word_size = 0, committed_words = 0,
      used_words = 0, free_words = 0, waste_words = 0\<rparr> \<and>
   InUseChunkStats_add s InUseChunkStats_init = s \<and>
   ArenaStats_init n =
     \<lparr>stats = replicate n InUseChunkStats_init,
      free_blocks_num = 0, free_blocks_word_size = 0\<rparr> \<and>
   (ArenaStats_wf n a \<longrightarrow> ArenaStats_add a (ArenaStats_init n) = a) \<and>
   ClmsStats_init n =
     \<lparr>arena_stats_nonclass = ArenaStats_init n, arena_stats_class = ArenaStats_init n\<rparr> \<and>
   (ClmsStats_wf n c \<longrightarrow> ClmsStats_add c (ClmsStats_init n) = c)"
proof (intro conjI impI)
  assume "ClmsStats_wf n c"
  then have "ArenaStats_add (arena_stats_nonclass c) (ArenaStats_init n) = arena_stats_nonclass c"
    and "ArenaStats_add (arena_stats_class c) (ArenaStats_init n) = arena_stats_class c"
    by (simp_all add: ClmsStats_wf_def ArenaStats_add_init)
  then show "ClmsStats_add c (ClmsStats_init n) = c"
    by (simp add: ClmsStats_add_def ClmsStats_init_def)
next
  show "InUseChunkStats_add s InUseChunkStats_init = s"
    by (rule InUseChunkStats_add_init)
next
  assume "ArenaStats_wf n a"
  then show "ArenaStats_add a (ArenaStats_init n) = a"
    by (rule ArenaStats_add_init)
qed (simp_all add: InUseChunkStats_init_def ArenaStats_init_def ClmsStats_init_def)

theorem default_constructed_is_right_identity_witness:
  "ArenaStats_wf 2
     \<lparr>stats = [\<lparr>num = 1, word_size = 1024, committed_words = 512,
                used_words = 300, free_words = 200, waste_words = 12\<rparr>,
               \<lparr>num = 2, word_size = 256, committed_words = 256,
                used_words = 250, free_words = 0, waste_words = 6\<rparr>],
      free_blocks_num = 3, free_blocks_word_size = 40\<rparr> \<and>
   ArenaStats_add
     \<lparr>stats = [\<lparr>num = 1, word_size = 1024, committed_words = 512,
                used_words = 300, free_words = 200, waste_words = 12\<rparr>,
               \<lparr>num = 2, word_size = 256, committed_words = 256,
                used_words = 250, free_words = 0, waste_words = 6\<rparr>],
      free_blocks_num = 3, free_blocks_word_size = 40\<rparr>
     (ArenaStats_init 2) =
     \<lparr>stats = [\<lparr>num = 1, word_size = 1024, committed_words = 512,
                used_words = 300, free_words = 200, waste_words = 12\<rparr>,
               \<lparr>num = 2, word_size = 256, committed_words = 256,
                used_words = 250, free_words = 0, waste_words = 6\<rparr>],
      free_blocks_num = 3, free_blocks_word_size = 40\<rparr> \<and>
   ClmsStats_wf 2 (ClmsStats_init 2) \<and>
   ClmsStats_add (ClmsStats_init 2) (ClmsStats_init 2) = ClmsStats_init 2"
  using default_constructed_is_right_identity
    [of _ 2
        "\<lparr>stats = [\<lparr>num = 1, word_size = 1024, committed_words = 512,
                   used_words = 300, free_words = 200, waste_words = 12\<rparr>,
                  \<lparr>num = 2, word_size = 256, committed_words = 256,
                   used_words = 250, free_words = 0, waste_words = 6\<rparr>],
          free_blocks_num = 3, free_blocks_word_size = 40\<rparr>"
        "ClmsStats_init 2"]
  by (simp add: ArenaStats_wf_def ClmsStats_wf_def ClmsStats_init_def ArenaStats_init_def)

section \<open>Properties of the commit limiter and of context construction\<close>






lemma words_of_bytes:
  fixes n :: size_t
  assumes "unat n * unat BytesPerWord < 2 ^ 64"
  shows "(n * BytesPerWord) div BytesPerWord = n"
proof -
  have bpw: "unat BytesPerWord = 8"
    by (simp add: BytesPerWord_def)
  have "unat (n * BytesPerWord) = unat n * unat BytesPerWord"
    using assms by (simp add: unat_mult_lem [THEN iffD1])
  then have "unat ((n * BytesPerWord) div BytesPerWord) = unat n"
    by (simp add: unat_div bpw)
  then show ?thesis
    by (rule word_unat_eq_iff [THEN iffD2])
qed

text \<open>
  C3 (as amended). If \<open>reserve_limit > 0\<close> and \<open>reserve_limit * BytesPerWord\<close> does not
  overflow \<open>size_t\<close>, the context is created non-expandable over a single reservation of
  exactly \<open>reserve_limit\<close> words; if \<open>reserve_limit == 0\<close>, the context is created
  expandable.
\<close>

theorem context_construction_mode:
  "(0 < reserve_limit \<and> unat reserve_limit * unat BytesPerWord < 2 ^ 64 \<longrightarrow>
      m_context (MetaspaceTestContext_init reserve_alignment name commit_limit reserve_limit) =
        create_nonexpandable_context name
          \<lparr>rs_size = reserve_limit * BytesPerWord, rs_alignment = reserve_alignment,
           rs_large = False\<rparr> \<and>
      \<not> is_expandable
          (m_context (MetaspaceTestContext_init reserve_alignment name commit_limit reserve_limit)) \<and>
      map rs_word_size
        (reservations
          (m_context (MetaspaceTestContext_init reserve_alignment name commit_limit reserve_limit)))
        = [reserve_limit]) \<and>
   (reserve_limit = 0 \<longrightarrow>
      m_context (MetaspaceTestContext_init reserve_alignment name commit_limit reserve_limit) =
        create_expandable_context name \<and>
      is_expandable
        (m_context (MetaspaceTestContext_init reserve_alignment name commit_limit reserve_limit)))"
  by (simp add: MetaspaceTestContext_init_def rs_word_size_def words_of_bytes)

theorem context_construction_mode_witness:
  "(0 :: size_t) < 4096 \<and> unat (4096 :: size_t) * unat BytesPerWord < 2 ^ 64 \<and>
   m_context (MetaspaceTestContext_init 65536 ''test'' 0 4096) =
     create_nonexpandable_context ''test''
       \<lparr>rs_size = 32768, rs_alignment = 65536, rs_large = False\<rparr> \<and>
   \<not> is_expandable (m_context (MetaspaceTestContext_init 65536 ''test'' 0 4096)) \<and>
   map rs_word_size (reservations (m_context (MetaspaceTestContext_init 65536 ''test'' 0 4096)))
     = [4096] \<and>
   m_context (MetaspaceTestContext_init 65536 ''test'' 0 0) = create_expandable_context ''test'' \<and>
   is_expandable (m_context (MetaspaceTestContext_init 65536 ''test'' 0 0))"
  using context_construction_mode [of 4096 65536 "''test''" 0]
    context_construction_mode [of 0 65536 "''test''" 0]
  by (simp add: BytesPerWord_def rs_word_size_def)

text \<open>
  C3, the claim as stated, fails: with \<open>reserve_limit = 2^61\<close> words the byte size
  \<open>reserve_limit * BytesPerWord\<close> wraps to 0, and the non-expandable context is created
  over a reservation of 0 bytes, not of \<open>2^61\<close> words.
\<close>

theorem context_construction_overflow_counterexample:
  "(0 :: size_t) < 2 ^ 61 \<and>
   m_context (MetaspaceTestContext_init 65536 ''test'' 0 (2 ^ 61)) =
     create_nonexpandable_context ''test''
       \<lparr>rs_size = 0, rs_alignment = 65536, rs_large = False\<rparr> \<and>
   map rs_word_size
     (reservations (m_context (MetaspaceTestContext_init 65536 ''test'' 0 (2 ^ 61)))) = [0] \<and>
   (0 :: size_t) \<noteq> 2 ^ 61"
  by (simp add: MetaspaceTestContext_init_def rs_word_size_def BytesPerWord_def)

section \<open>Splitting and merging chunks\<close>

lemma word_size_for_level_Suc:
  "is_valid_level p (Suc l) \<Longrightarrow> word_size_for_level p l = 2 * word_size_for_level p (Suc l)"
proof -
  assume "is_valid_level p (Suc l)"
  then have "NUM_CHUNK_LEVELS p - 1 - l = Suc (NUM_CHUNK_LEVELS p - 1 - Suc l)"
    by (simp add: is_valid_level_def)
  then show ?thesis
    by (simp add: word_size_for_level_def)
qed

text \<open>
  C6. A free, buddy-aligned chunk \<open>c\<close> of a level \<open>L\<close> that has a next-finer level splits
  into two free chunks of level \<open>L + 1\<close> that lie side by side in the address range of
  \<open>c\<close>, and merging these two yields a single free chunk of level \<open>L\<close> with exactly the
  address range of \<open>c\<close>.
\<close>

theorem split_then_merge:
  assumes "state c = Free" and "is_valid_level p (Suc (level c))" and "is_buddy_aligned p c"
  shows "\<exists>lo hi m.
           split_chunk p c = Some (lo, hi) \<and>
           level lo = Suc (level c) \<and> level hi = Suc (level c) \<and>
           state lo = Free \<and> state hi = Free \<and>
           fst (address_range p lo) = fst (address_range p c) \<and>
           fst (address_range p hi) = snd (address_range p lo) \<and>
           snd (address_range p hi) = snd (address_range p c) \<and>
           merge_chunks p lo hi = Some m \<and>
           level m = level c \<and> state m = Free \<and>
           address_range p m = address_range p c"
proof -
  let ?sz = "word_size_for_level p (Suc (level c))"
  let ?lo = "c\<lparr>level := Suc (level c), committed := min (committed c) ?sz, used := 0\<rparr>"
  let ?hi = "c\<lparr>level := Suc (level c), base := base c + ?sz,
               committed := committed c - ?sz, used := 0\<rparr>"
  let ?m = "?lo\<lparr>level := level c,
                committed := (if committed ?lo = ?sz
                              then committed ?lo + committed ?hi else committed ?lo),
                used := 0\<rparr>"
  have double: "word_size_for_level p (level c) = 2 * ?sz"
    using assms(2) by (rule word_size_for_level_Suc)
  have split: "split_chunk p c = Some (?lo, ?hi)"
    using assms(1,2) by (simp add: split_chunk_def Let_def)
  have aligned: "base c mod word_size_for_level p (level c) = 0"
    using assms(3) by (simp add: is_buddy_aligned_def chunk_word_size_def)
  have merge: "merge_chunks p ?lo ?hi = Some ?m"
    using assms(1,2) aligned by (simp add: merge_chunks_def chunk_word_size_def)
  show ?thesis
    using split merge assms(1) double
    by (simp add: address_range_def chunk_word_size_def)
qed

theorem split_then_merge_witness:
  "state \<lparr>level = 1, base = 512, committed = 300, used = 0, state = Free\<rparr> = Free \<and>
   is_valid_level
     \<lparr>NUM_CHUNK_LEVELS = 4, MIN_CHUNK_WORD_SIZE = 128\<rparr> 2 \<and>
   is_buddy_aligned
     \<lparr>NUM_CHUNK_LEVELS = 4, MIN_CHUNK_WORD_SIZE = 128\<rparr>
     \<lparr>level = 1, base = 512, committed = 300, used = 0, state = Free\<rparr> \<and>
   split_chunk
     \<lparr>NUM_CHUNK_LEVELS = 4, MIN_CHUNK_WORD_SIZE = 128\<rparr>
     \<lparr>level = 1, base = 512, committed = 300, used = 0, state = Free\<rparr> =
     Some (\<lparr>level = 2, base = 512, committed = 256, used = 0, state = Free\<rparr>,
           \<lparr>level = 2, base = 768, committed = 44, used = 0, state = Free\<rparr>) \<and>
   merge_chunks
     \<lparr>NUM_CHUNK_LEVELS = 4, MIN_CHUNK_WORD_SIZE = 128\<rparr>
     \<lparr>level = 2, base = 512, committed = 256, used = 0, state = Free\<rparr>
     \<lparr>level = 2, base = 768, committed = 44, used = 0, state = Free\<rparr> =
     Some \<lparr>level = 1, base = 512, committed = 300, used = 0, state = Free\<rparr>"
  using split_then_merge
    [of "\<lparr>level = 1, base = 512, committed = 300, used = 0, state = Free\<rparr>"
        "\<lparr>NUM_CHUNK_LEVELS = 4, MIN_CHUNK_WORD_SIZE = 128\<rparr>"]
  by (simp add: is_valid_level_def is_buddy_aligned_def chunk_word_size_def
        word_size_for_level_def split_chunk_def merge_chunks_def)

end
